theory Spec2Isabelle
  imports Main "HOL-Library.Word"
begin

unbundle bit_operations_syntax

section \<open>Machine integers\<close>

type_synonym u8 = "8 word"
type_synonym u16 = "16 word"
type_synonym u32 = "32 word"
type_synonym u64 = "64 word"

section \<open>ColorValue (color\_value.hpp)\<close>

text \<open>
  \<^verbatim>\<open>struct ColorValue { uint8_t r, g, b, a; ... }\<close>; the fields carry the names
  of the constructor's parameters \<^verbatim>\<open>(red, green, blue, alpha = 255)\<close>.
\<close>

record ColorValue =
  red :: u8
  green :: u8
  blue :: u8
  alpha :: u8

text \<open>
  \<^verbatim>\<open>
  uint64_t to_precise_value() const {
      return (static_cast<uint64_t>(r) << 32) |
             (static_cast<uint64_t>(g) << 16) |
             static_cast<uint64_t>(b);
  }
  \<close>
\<close>

definition to_precise_value :: "ColorValue \<Rightarrow> u64" where
  "to_precise_value c =
     push_bit 32 (ucast (red c) :: u64) OR push_bit 16 (ucast (green c) :: u64)
       OR (ucast (blue c) :: u64)"

text \<open>
  \<^verbatim>\<open>
  static ColorValue from_precise_value(uint64_t value) {
      return ColorValue((value >> 32) & 0xFF, (value >> 16) & 0xFF, value & 0xFF, 255);
  }
  \<close>
  The three arguments are narrowed to \<^verbatim>\<open>uint8_t\<close> by the constructor.
\<close>

definition from_precise_value :: "u64 \<Rightarrow> ColorValue" where
  "from_precise_value v =
     \<lparr> red = ucast (drop_bit 32 v AND 0xFF),
       green = ucast (drop_bit 16 v AND 0xFF),
       blue = ucast (v AND 0xFF),
       alpha = 255 \<rparr>"

section \<open>Arithmetic helpers (utils.cpp)\<close>

text \<open>
  \<^verbatim>\<open>
  uint32_t montgomery_reduce(uint64_t a, uint32_t q) {
      uint64_t t = a * (static_cast<uint64_t>(1) << 32) % q;
      return (a + t * q) >> 32;
  }
  \<close>
  \<^verbatim>\<open>*\<close> and \<^verbatim>\<open>%\<close> associate to the left, all arithmetic is on
  \<^verbatim>\<open>uint64_t\<close> and wraps, and the result is narrowed to \<^verbatim>\<open>uint32_t\<close>.
\<close>

definition montgomery_reduce :: "u64 \<Rightarrow> u32 \<Rightarrow> u32" where
  "montgomery_reduce a q =
     (let t = (a * push_bit 32 1) mod ucast q
      in ucast (drop_bit 32 (a + t * ucast q)))"

text \<open>
  \<^verbatim>\<open>
  uint32_t mod_inverse(uint32_t a, uint32_t m) {
      int64_t m0 = m, t, q;
      int64_t x0 = 0, x1 = 1;
      if (m == 1) return 0;
      while (a > 1) {
          q = a / m;
          t = m;
          m = a % m, a = t;
          t = x0;
          x0 = x1 - q * x0;
          x1 = t;
      }
      if (x1 < 0) x1 += m0;
      return static_cast<uint32_t>(x1);
  }
  \<close>
  The loop divides by \<^verbatim>\<open>m\<close>; when \<^verbatim>\<open>m\<close> has reached 0 with \<^verbatim>\<open>a > 1\<close>
  (the arguments were not coprime) the division is undefined, which the model returns as
  \<open>None\<close>. The Bezout coefficients stay below \<^verbatim>\<open>m0\<close> in magnitude, so
  \<^verbatim>\<open>int64_t\<close> is modelled by \<open>int\<close>.
\<close>

function mod_inverse_loop :: "nat \<Rightarrow> nat \<Rightarrow> int \<Rightarrow> int \<Rightarrow> int option" where
  "mod_inverse_loop a m x0 x1 =
     (if a > 1 then
        (if m = 0 then None
         else mod_inverse_loop m (a mod m) (x1 - int (a div m) * x0) x0)
      else Some x1)"
  by pat_completeness auto
termination
  by (relation "measure (\<lambda>(a, m, x0, x1). m)") auto

definition mod_inverse :: "u32 \<Rightarrow> u32 \<Rightarrow> u32 option" where
  "mod_inverse a m =
     (if m = 1 then Some 0
      else case mod_inverse_loop (unat a) (unat m) 0 1 of
             None \<Rightarrow> None
           | Some x1 \<Rightarrow> Some (word_of_int (if x1 < 0 then x1 + uint m else x1)))"

text \<open>
  \<^verbatim>\<open>
  uint32_t mod_pow(uint32_t base, uint32_t exp, uint32_t mod) {
      uint32_t result = 1;
      base %= mod;
      while (exp > 0) {
          if (exp & 1) result = (static_cast<uint64_t>(result) * base) % mod;
          base = (static_cast<uint64_t>(base) * base) % mod;
          exp >>= 1;
      }
      return result;
  }
  \<close>
\<close>

definition mulmod :: "u32 \<Rightarrow> u32 \<Rightarrow> u32 \<Rightarrow> u32" where
  "mulmod x y m = ucast (((ucast x :: u64) * ucast y) mod ucast m)"

function mod_pow_loop :: "u32 \<Rightarrow> u32 \<Rightarrow> nat \<Rightarrow> u32 \<Rightarrow> u32" where
  "mod_pow_loop result base exp md =
     (if exp > 0 then
        mod_pow_loop (if odd exp then mulmod result base md else result)
                     (mulmod base base md) (exp div 2) md
      else result)"
  by pat_completeness auto
termination
  by (relation "measure (\<lambda>(result, base, exp, md). exp)") auto

definition mod_pow :: "u32 \<Rightarrow> u32 \<Rightarrow> u32 \<Rightarrow> u32" where
  "mod_pow base exp md = mod_pow_loop 1 (base mod md) (unat exp) md"

text \<open>
  \<^verbatim>\<open>bool is_power_of_two(uint32_t x) { return (x & (x - 1)) == 0 && x != 0; }\<close>
\<close>

definition is_power_of_two :: "u32 \<Rightarrow> bool" where
  "is_power_of_two x \<longleftrightarrow> (x AND (x - 1)) = 0 \<and> x \<noteq> 0"

section \<open>The scalar NTT engine (ntt\_engine.cpp, ntt\_scalar.cpp)\<close>

text \<open>
  The members of \<^verbatim>\<open>NTTEngine\<close> and \<^verbatim>\<open>ScalarNTTEngine\<close> that the scalar
  transform reads: \<^verbatim>\<open>q_\<close>, \<^verbatim>\<open>n_\<close>, \<^verbatim>\<open>log_n_\<close>, \<^verbatim>\<open>zetas_\<close>,
  \<^verbatim>\<open>zetas_inv_\<close>, \<^verbatim>\<open>montgomery_r_\<close> and \<^verbatim>\<open>montgomery_r_inv_\<close>.
\<close>

record ScalarNTTEngine =
  engine_q :: u32
  engine_n :: u32
  log_n :: u32
  zetas :: "u32 list"
  zetas_inv :: "u32 list"
  montgomery_r :: u32
  montgomery_r_inv :: u32

text \<open>
  \<^verbatim>\<open>
  uint32_t temp = n;
  while (temp > 1) { temp >>= 1; log_n_++; }
  \<close>
\<close>

function log_n_loop :: "nat \<Rightarrow> u32 \<Rightarrow> u32" where
  "log_n_loop temp l = (if temp > 1 then log_n_loop (temp div 2) (l + 1) else l)"
  by pat_completeness auto
termination
  by (relation "measure (\<lambda>(temp, l). temp)") auto

text \<open>
  \<^verbatim>\<open>
  zetas_[0] = 1;
  for (uint32_t i = 1; i < n_; ++i)
      zetas_[i] = (static_cast<uint64_t>(zetas_[i-1]) * zeta) % q_;
  \<close>
  The table has \<^verbatim>\<open>n_\<close> entries, value-initialised to 0; with \<^verbatim>\<open>n_ = 0\<close>
  the first store would be out of range, which the constructor's power-of-two check
  excludes.
\<close>

definition zeta_table :: "u32 \<Rightarrow> u32 \<Rightarrow> nat \<Rightarrow> u32 list" where
  "zeta_table zeta q n =
     foldl (\<lambda>zs i. zs[i := mulmod (zs ! (i - 1)) zeta q]) ((replicate n 0)[0 := 1]) [1..<n]"

datatype fault = invalid_argument | undefined_division

text \<open>
  The constructors \<^verbatim>\<open>NTTEngine::NTTEngine\<close> and
  \<^verbatim>\<open>ScalarNTTEngine::ScalarNTTEngine\<close>: the base class throws
  \<^verbatim>\<open>std::invalid_argument\<close> unless \<^verbatim>\<open>n\<close> is a power of two; the
  primitive root is the constant \<^verbatim>\<open>g = 17\<close>.
\<close>

definition new_ScalarNTTEngine :: "u32 \<Rightarrow> u32 \<Rightarrow> fault + ScalarNTTEngine" where
  "new_ScalarNTTEngine q n =
     (if \<not> is_power_of_two n then Inl invalid_argument
      else
        let r = (ucast ((push_bit 32 1 :: u64) mod ucast q) :: u32);
            zeta = mod_pow 17 ((q - 1) div n) q
        in case (mod_inverse r q, mod_inverse zeta q) of
             (Some r_inv, Some zeta_inv) \<Rightarrow>
               Inr \<lparr> engine_q = q, engine_n = n, log_n = log_n_loop (unat n) 0,
                     zetas = zeta_table zeta q (unat n),
                     zetas_inv = zeta_table zeta_inv q (unat n),
                     montgomery_r = r, montgomery_r_inv = r_inv \<rparr>
           | _ \<Rightarrow> Inl undefined_division)"

text \<open>
  \<^verbatim>\<open>
  uint32_t ScalarNTTEngine::montgomery_reduce(uint64_t val) const {
      uint64_t t = val * montgomery_r_inv_;
      uint32_t k = t % (1ULL << 32);
      uint64_t res = val - static_cast<uint64_t>(k) * q_;
      return res >> 32;
  }
  \<close>
\<close>

definition scalar_montgomery_reduce :: "ScalarNTTEngine \<Rightarrow> u64 \<Rightarrow> u32" where
  "scalar_montgomery_reduce e val =
     (let t = val * ucast (montgomery_r_inv e);
          k = (ucast (t mod push_bit 32 1) :: u32);
          res = val - (ucast k :: u64) * ucast (engine_q e)
      in ucast (drop_bit 32 res))"

text \<open>
  \<^verbatim>\<open>
  void ScalarNTTEngine::butterfly(uint32_t& a, uint32_t& b, uint32_t zeta) const {
      uint32_t sum = (a + b) % q_;
      uint32_t diff = (a >= b) ? (a - b) : (a + q_ - b);
      uint32_t prod = montgomery_reduce(static_cast<uint64_t>(diff) * zeta);
      a = sum;
      b = prod;
  }
  \<close>
  \<^verbatim>\<open>butterfly_inv\<close> calls \<^verbatim>\<open>butterfly\<close>.
\<close>

definition butterfly :: "ScalarNTTEngine \<Rightarrow> u32 \<Rightarrow> u32 \<Rightarrow> u32 \<Rightarrow> u32 \<times> u32" where
  "butterfly e a b zeta =
     (let sum = (a + b) mod engine_q e;
          diff = (if a \<ge> b then a - b else a + engine_q e - b);
          prod = scalar_montgomery_reduce e ((ucast diff :: u64) * ucast zeta)
      in (sum, prod))"

definition butterfly_inv :: "ScalarNTTEngine \<Rightarrow> u32 \<Rightarrow> u32 \<Rightarrow> u32 \<Rightarrow> u32 \<times> u32" where
  "butterfly_inv e a b zeta = butterfly e a b zeta"

text \<open>
  One pass of the inner loop
  \<^verbatim>\<open>
  uint32_t j = 0;
  for (uint32_t i = 0; i < k; ++i) {
      uint32_t zeta = zetas_[j];
      butterfly(poly[i], poly[i + k], zeta);
      j += m;
  }
  \<close>
  so that \<^verbatim>\<open>j = i * m\<close> at iteration \<^verbatim>\<open>i\<close>.
\<close>

definition ntt_stage :: "ScalarNTTEngine \<Rightarrow> u32 list \<Rightarrow> nat \<Rightarrow> nat \<Rightarrow> u32 list \<Rightarrow> u32 list" where
  "ntt_stage e zs m k poly =
     foldl (\<lambda>p i. let (x, y) = butterfly e (p ! i) (p ! (i + k)) (zs ! (i * m))
                   in p[i := x, i + k := y]) poly [0..<k]"

text \<open>
  \<^verbatim>\<open>
  void ScalarNTTEngine::ntt_forward(uint32_t* poly) const {
      uint32_t m = 1;
      uint32_t k = n_ / 2;
      for (uint32_t stage = 0; stage < log_degree(); ++stage) {
          ... inner loop ...
          m *= 2;
          k /= 2;
      }
  }
  \<close>
\<close>

fun forward_stages :: "ScalarNTTEngine \<Rightarrow> nat \<Rightarrow> nat \<Rightarrow> nat \<Rightarrow> u32 list \<Rightarrow> u32 list" where
  "forward_stages e 0 m k poly = poly"
| "forward_stages e (Suc stages) m k poly =
     forward_stages e stages (m * 2) (k div 2) (ntt_stage e (zetas e) m k poly)"

definition ntt_forward :: "ScalarNTTEngine \<Rightarrow> u32 list \<Rightarrow> u32 list" where
  "ntt_forward e poly = forward_stages e (unat (log_n e)) 1 (unat (engine_n e) div 2) poly"

text \<open>
  \<^verbatim>\<open>
  void ScalarNTTEngine::ntt_inverse(uint32_t* poly) const {
      uint32_t m = n_ / 2;
      uint32_t k = 1;
      for (uint32_t stage = 0; stage < log_degree(); ++stage) {
          ... inner loop with zetas_inv_ and butterfly_inv ...
          m /= 2;
          k *= 2;
      }
      uint32_t n_inv = mod_inverse(n_, q_);
      for (uint32_t i = 0; i < n_; ++i)
          poly[i] = montgomery_reduce(static_cast<uint64_t>(poly[i]) * n_inv);
  }
  \<close>
\<close>

fun inverse_stages :: "ScalarNTTEngine \<Rightarrow> nat \<Rightarrow> nat \<Rightarrow> nat \<Rightarrow> u32 list \<Rightarrow> u32 list" where
  "inverse_stages e 0 m k poly = poly"
| "inverse_stages e (Suc stages) m k poly =
     inverse_stages e stages (m div 2) (k * 2) (ntt_stage e (zetas_inv e) m k poly)"

definition ntt_inverse :: "ScalarNTTEngine \<Rightarrow> u32 list \<Rightarrow> u32 list option" where
  "ntt_inverse e poly =
     (case mod_inverse (engine_n e) (engine_q e) of
        None \<Rightarrow> None
      | Some n_inv \<Rightarrow>
          Some (map (\<lambda>c. scalar_montgomery_reduce e ((ucast c :: u64) * ucast n_inv))
                  (inverse_stages e (unat (log_n e)) (unat (engine_n e) div 2) 1 poly)))"

text \<open>
  \<^verbatim>\<open>
  void ScalarNTTEngine::multiply(const uint32_t* a, const uint32_t* b, uint32_t* result) const {
      ... copy a and b ...
      ntt_forward(a_ntt.data());
      ntt_forward(b_ntt.data());
      for (uint32_t i = 0; i < n_; ++i)
          result[i] = montgomery_reduce(static_cast<uint64_t>(a_ntt[i]) * b_ntt[i]);
      ntt_inverse(result);
  }
  \<close>
\<close>

definition multiply :: "ScalarNTTEngine \<Rightarrow> u32 list \<Rightarrow> u32 list \<Rightarrow> u32 list option" where
  "multiply e a b =
     (let a_ntt = ntt_forward e (take (unat (engine_n e)) a);
          b_ntt = ntt_forward e (take (unat (engine_n e)) b);
          result = map (\<lambda>i. scalar_montgomery_reduce e ((ucast (a_ntt ! i) :: u64) * ucast (b_ntt ! i)))
                       [0..<unat (engine_n e)]
      in ntt_inverse e result)"

section \<open>The samplers (shake\_sampler.hpp, shake\_sampler.cpp)\<close>

text \<open>
  \<^verbatim>\<open>SHAKE128Sampler\<close> and \<^verbatim>\<open>SHAKE256Sampler\<close> have the same two members,
  \<^verbatim>\<open>std::vector<uint8_t> state_\<close> and \<^verbatim>\<open>size_t position_\<close>. The position never
  comes near \<^verbatim>\<open>SIZE_MAX\<close> and is a \<open>nat\<close>.
\<close>

record Sampler =
  state :: "u8 list"
  position :: nat

text \<open>
  \<^verbatim>\<open>
  void SHAKE128Sampler::init(const uint8_t* seed, size_t seed_len) {
      reset();
      state_.resize(seed_len);
      memcpy(state_.data(), seed, seed_len);
  }
  \<close>
\<close>

definition init128 :: "u8 list \<Rightarrow> Sampler" where
  "init128 sd = \<lparr> state = sd, position = 0 \<rparr>"

text \<open>
  The byte that \<^verbatim>\<open>SHAKE128Sampler::squeeze\<close> writes for stream position
  \<^verbatim>\<open>position_ + i\<close>:
  \<^verbatim>\<open>
  size_t state_idx = (position_ + i) % state_.size();
  uint32_t counter = (position_ + i) / state_.size();
  uint8_t value = state_[state_idx];
  value ^= (counter & 0xFF);
  value ^= ((counter >> 8) & 0xFF);
  value = (value << 5) | (value >> 3);
  value ^= state_[(state_idx + 1) % state_.size()];
  out[i] = value;
  \<close>
  The state is never empty where the sampler is used (34 bytes in
  \<^verbatim>\<open>generate_matrix_A\<close>).
\<close>

definition shake128_byte :: "u8 list \<Rightarrow> nat \<Rightarrow> u8" where
  "shake128_byte st p =
     (let state_idx = p mod length st;
          counter = (of_nat (p div length st) :: u32);
          v0 = st ! state_idx;
          v1 = v0 XOR ucast (counter AND 0xFF);
          v2 = v1 XOR ucast (drop_bit 8 counter AND 0xFF);
          v3 = push_bit 5 v2 OR drop_bit 3 v2
      in v3 XOR st ! ((state_idx + 1) mod length st))"

definition squeeze128 :: "Sampler \<Rightarrow> nat \<Rightarrow> u8 list \<times> Sampler" where
  "squeeze128 s len =
     (map (\<lambda>i. shake128_byte (state s) (position s + i)) [0..<len],
      s\<lparr>position := position s + len\<rparr>)"

text \<open>
  \<^verbatim>\<open>
  SHAKE256Sampler::SHAKE256Sampler() : position_(0) { state_.resize(32); }
  void SHAKE256Sampler::init(const uint8_t* seed, size_t seed_len) {
      reset();
      size_t copy_len = std::min(seed_len, state_.size());
      memcpy(state_.data(), seed, copy_len);
      for (size_t i = copy_len; i < state_.size(); ++i)
          state_[i] = (seed[i % seed_len] + i) & 0xFF;
  }
  \<close>
\<close>

definition init256 :: "u8 list \<Rightarrow> Sampler" where
  "init256 sd =
     (let copy_len = min (length sd) 32
      in \<lparr> state = map (\<lambda>i. if i < copy_len then sd ! i
                               else sd ! (i mod length sd) + of_nat i) [0..<32],
           position = 0 \<rparr>)"

text \<open>
  \<^verbatim>\<open>SHAKE256Sampler::squeeze\<close> mixes all four counter bytes and rotates by 3:
  \<^verbatim>\<open>
  uint8_t value = state_[state_idx];
  value ^= (counter & 0xFF);
  value ^= ((counter >> 8) & 0xFF);
  value ^= ((counter >> 16) & 0xFF);
  value ^= ((counter >> 24) & 0xFF);
  value = (value << 3) | (value >> 5);
  value ^= state_[(state_idx + 1) % state_.size()];
  \<close>
\<close>

definition shake256_byte :: "u8 list \<Rightarrow> nat \<Rightarrow> u8" where
  "shake256_byte st p =
     (let state_idx = p mod length st;
          counter = (of_nat (p div length st) :: u32);
          v0 = st ! state_idx;
          v1 = v0 XOR ucast (counter AND 0xFF);
          v2 = v1 XOR ucast (drop_bit 8 counter AND 0xFF);
          v3 = v2 XOR ucast (drop_bit 16 counter AND 0xFF);
          v4 = v3 XOR ucast (drop_bit 24 counter AND 0xFF);
          v5 = push_bit 3 v4 OR drop_bit 5 v4
      in v5 XOR st ! ((state_idx + 1) mod length st))"

definition squeeze256 :: "Sampler \<Rightarrow> nat \<Rightarrow> u8 list \<times> Sampler" where
  "squeeze256 s len =
     (map (\<lambda>i. shake256_byte (state s) (position s + i)) [0..<len],
      s\<lparr>position := position s + len\<rparr>)"

text \<open>
  \<^verbatim>\<open>
  int32_t SHAKE256Sampler::sample_binomial_coefficient(uint32_t eta) {
      int32_t result = 0;
      for (uint32_t i = 0; i < eta; ++i) {
          uint8_t byte1, byte2;
          squeeze(&byte1, 1);
          squeeze(&byte2, 1);
          result += (byte1 & 1) ? 1 : -1;
          result += (byte2 & 1) ? 1 : -1;
      }
      return result;
  }
  \<close>
  The \<^verbatim>\<open>int32_t\<close> is a 32-bit word read in two's complement.
\<close>

fun binomial_loop :: "nat \<Rightarrow> Sampler \<Rightarrow> u32 \<Rightarrow> u32 \<times> Sampler" where
  "binomial_loop 0 s result = (result, s)"
| "binomial_loop (Suc i) s result =
     (let (byte1, s1) = squeeze256 s 1;
          (byte2, s2) = squeeze256 s1 1;
          result1 = result + (if hd byte1 AND 1 \<noteq> 0 then 1 else - 1);
          result2 = result1 + (if hd byte2 AND 1 \<noteq> 0 then 1 else - 1)
      in binomial_loop i s2 result2)"

definition sample_binomial_coefficient :: "Sampler \<Rightarrow> u32 \<Rightarrow> u32 \<times> Sampler" where
  "sample_binomial_coefficient s e = binomial_loop (unat e) s 0"

section \<open>Parameters (clwe.hpp)\<close>

record CLWEParameters =
  security_level :: u32
  degree :: u32
  module_rank :: u32
  modulus :: u32
  eta :: u32
  beta :: u32

text \<open>
  The constructor \<^verbatim>\<open>CLWEParameters(uint32_t sec_level = 128)\<close>: the member
  initialisers give the 128-bit values, the \<^verbatim>\<open>switch\<close> overwrites them for 128, 192
  and 256 and keeps them for any other level.
\<close>

definition new_CLWEParameters :: "u32 \<Rightarrow> CLWEParameters" where
  "new_CLWEParameters sec_level =
     (let p = \<lparr> security_level = sec_level, degree = 256, module_rank = 2,
                 modulus = 3329, eta = 2, beta = 120 \<rparr>
      in if sec_level = 128 then
           p\<lparr>degree := 256, module_rank := 2, modulus := 3329, eta := 2, beta := 120\<rparr>
         else if sec_level = 192 then
           p\<lparr>degree := 256, module_rank := 3, modulus := 3329, eta := 2, beta := 200\<rparr>
         else if sec_level = 256 then
           p\<lparr>degree := 256, module_rank := 4, modulus := 3329, eta := 2, beta := 280\<rparr>
         else p)"

section \<open>The colour KEM (color\_kem.hpp, color\_kem.cpp)\<close>

subsection \<open>Matrix generation\<close>

text \<open>
  The body of the \<^verbatim>\<open>while (coeff_idx < n)\<close> loop of \<^verbatim>\<open>generate_matrix_A\<close>:
  \<^verbatim>\<open>
  std::array<uint8_t, 3> bytes;
  shake128.squeeze(bytes.data(), bytes.size());
  uint16_t coeff1 = ((bytes[0] << 4) | (bytes[1] >> 4)) & 0xFFF;
  uint16_t coeff2 = ((bytes[1] << 8) | bytes[2]) & 0xFFF;
  if (coeff1 < q && coeff_idx < n) coeffs[coeff_idx++] = coeff1;
  if (coeff2 < q && coeff_idx < n) coeffs[coeff_idx++] = coeff2;
  \<close>
  The shifts are on \<^verbatim>\<open>int\<close>; both values fit 16 bits before the mask.
\<close>

definition coeff1_of :: "u8 list \<Rightarrow> u16" where
  "coeff1_of bytes = (push_bit 4 (ucast (bytes ! 0)) OR drop_bit 4 (ucast (bytes ! 1))) AND 0xFFF"

definition coeff2_of :: "u8 list \<Rightarrow> u16" where
  "coeff2_of bytes = (push_bit 8 (ucast (bytes ! 1)) OR ucast (bytes ! 2)) AND 0xFFF"

definition store_if :: "u32 \<Rightarrow> nat \<Rightarrow> u16 \<Rightarrow> u32 list \<times> nat \<Rightarrow> u32 list \<times> nat" where
  "store_if q n c = (\<lambda>(coeffs, coeff_idx).
     if ucast c < q \<and> coeff_idx < n then (coeffs[coeff_idx := ucast c], coeff_idx + 1)
     else (coeffs, coeff_idx))"

definition sample_step :: "u32 \<Rightarrow> nat \<Rightarrow> Sampler \<times> u32 list \<times> nat \<Rightarrow> Sampler \<times> u32 list \<times> nat" where
  "sample_step q n = (\<lambda>(shake128, cs).
     let (bytes, shake128') = squeeze128 shake128 3
     in (shake128', store_if q n (coeff2_of bytes) (store_if q n (coeff1_of bytes) cs)))"

text \<open>
  The loop itself. Nothing bounds the number of rounds in the source, so the model is a
  partial function: \<open>None\<close> stands for a loop that never leaves.
\<close>

partial_function (option) sample_loop ::
  "u32 \<Rightarrow> nat \<Rightarrow> Sampler \<times> u32 list \<times> nat \<Rightarrow> u32 list option" where
  "sample_loop q n s =
     (if snd (snd s) < n then sample_loop q n (sample_step q n s) else Some (fst (snd s)))"

declare sample_loop.simps [code]

text \<open>
  The input of the sampler for entry \<^verbatim>\<open>(i, j)\<close>:
  \<^verbatim>\<open>
  shake_input.insert(shake_input.end(), seed.begin(), seed.end());
  shake_input.push_back(static_cast<uint8_t>(i));
  shake_input.push_back(static_cast<uint8_t>(j));
  \<close>
\<close>

definition shake_input :: "u8 list \<Rightarrow> nat \<Rightarrow> nat \<Rightarrow> u8 list" where
  "shake_input sd i j = sd @ [of_nat i, of_nat j]"

text \<open>
  The vector \<^verbatim>\<open>coeffs\<close> of entry \<^verbatim>\<open>(i, j)\<close> when the loop is left:
  \<^verbatim>\<open>std::vector<uint32_t> coeffs(n)\<close> starts as \<^verbatim>\<open>n\<close> zeros.
\<close>

definition entry_coeffs :: "CLWEParameters \<Rightarrow> u8 list \<Rightarrow> nat \<Rightarrow> nat \<Rightarrow> u32 list option" where
  "entry_coeffs P sd i j =
     sample_loop (modulus P) (unat (degree P))
       (init128 (shake_input sd i j), replicate (unat (degree P)) 0, 0)"

text \<open>
  What the entry holds after
  \<^verbatim>\<open>
  for (uint32_t coeff = 0; coeff < n; ++coeff)
      matrix[i][j] = ColorValue::from_precise_value(coeffs[coeff]);
  \<close>
  starting from the default \<^verbatim>\<open>ColorValue()\<close>, which is \<^verbatim>\<open>(0, 0, 0, 255)\<close>.
\<close>

definition default_ColorValue :: ColorValue where
  "default_ColorValue = \<lparr> red = 0, green = 0, blue = 0, alpha = 255 \<rparr>"

definition store_entry :: "nat \<Rightarrow> u32 list \<Rightarrow> ColorValue" where
  "store_entry n coeffs =
     foldl (\<lambda>entry coeff. from_precise_value (ucast (coeffs ! coeff))) default_ColorValue [0..<n]"

fun those_opt :: "'a option list \<Rightarrow> 'a list option" where
  "those_opt [] = Some []"
| "those_opt (x # xs) =
     (case x of None \<Rightarrow> None
      | Some y \<Rightarrow> (case those_opt xs of None \<Rightarrow> None | Some ys \<Rightarrow> Some (y # ys)))"

definition generate_matrix_A :: "CLWEParameters \<Rightarrow> u8 list \<Rightarrow> ColorValue list list option" where
  "generate_matrix_A P sd =
     (let k = unat (module_rank P); n = unat (degree P)
      in those_opt (map (\<lambda>i. those_opt (map (\<lambda>j.
           map_option (store_entry n) (entry_coeffs P sd i j)) [0..<k])) [0..<k]))"

subsection \<open>Entropy\<close>

text \<open>
  The key generation reads \<^verbatim>\<open>std::random_device\<close> and the C library's
  \<^verbatim>\<open>rand()\<close>; encapsulation reads \<^verbatim>\<open>rand()\<close>. Both are inputs of the model:
  the values each source hands out, in order, and how many have been taken.
\<close>

record Entropy =
  rd_values :: "nat \<Rightarrow> u32"
  rd_count :: nat
  rand_values :: "nat \<Rightarrow> nat"
  rand_count :: nat

text \<open>
  \<^verbatim>\<open>std::generate(matrix_seed.begin(), matrix_seed.end(), [&rd]() { return rd() % 256; });\<close>
\<close>

definition rd_seed :: "Entropy \<Rightarrow> u8 list \<times> Entropy" where
  "rd_seed env =
     (map (\<lambda>i. ucast (rd_values env (rd_count env + i) mod 256)) [0..<32],
      env\<lparr>rd_count := rd_count env + 32\<rparr>)"

text \<open>
  \<^verbatim>\<open>std::generate(seed.begin(), seed.end(), []() { return rand() % 256; });\<close>
\<close>

definition rand_seed :: "Entropy \<Rightarrow> u8 list \<times> Entropy" where
  "rand_seed env =
     (map (\<lambda>i. of_nat (rand_values env (rand_count env + i) mod 256)) [0..<32],
      env\<lparr>rand_count := rand_count env + 32\<rparr>)"

subsection \<open>Secret and error vectors\<close>

text \<open>
  \<^verbatim>\<open>
  int32_t sample = sampler.sample_binomial_coefficient(params_.eta);
  uint32_t value = (sample % static_cast<int32_t>(params_.modulus) + params_.modulus) % params_.modulus;
  color = ColorValue::from_precise_value(value);
  \<close>
  The first \<^verbatim>\<open>%\<close> is the signed remainder of C++, which truncates towards zero; its
  result is converted to \<^verbatim>\<open>uint32_t\<close> for the addition.
\<close>

definition c_rem :: "int \<Rightarrow> int \<Rightarrow> int" where
  "c_rem x y = sgn x * (\<bar>x\<bar> mod \<bar>y\<bar>)"

definition sample_to_value :: "u32 \<Rightarrow> u32 \<Rightarrow> u32" where
  "sample_to_value q sample = (word_of_int (c_rem (sint sample) (sint q)) + q) mod q"

fun sample_colors :: "CLWEParameters \<Rightarrow> nat \<Rightarrow> Sampler \<Rightarrow> ColorValue list" where
  "sample_colors P 0 sampler = []"
| "sample_colors P (Suc k) sampler =
     (let (sample, sampler') = sample_binomial_coefficient sampler (eta P)
      in from_precise_value (ucast (sample_to_value (modulus P) sample))
           # sample_colors P k sampler')"

definition generate_error_vector :: "CLWEParameters \<Rightarrow> Entropy \<Rightarrow> ColorValue list \<times> Entropy" where
  "generate_error_vector P env =
     (let (sd, env') = rand_seed env
      in (sample_colors P (unat (module_rank P)) (init256 sd), env'))"

definition generate_secret_key :: "CLWEParameters \<Rightarrow> Entropy \<Rightarrow> ColorValue list \<times> Entropy" where
  "generate_secret_key P env =
     (let (sd, env') = rand_seed env
      in (sample_colors P (unat (module_rank P)) (init256 sd), env'))"

subsection \<open>Vector arithmetic\<close>

text \<open>
  \<^verbatim>\<open>std::vector::operator[]\<close> past the end is undefined; the model reads through
  \<open>at\<close>, and a function that would read out of range has no result.
\<close>

definition at :: "'a list \<Rightarrow> nat \<Rightarrow> 'a option" where
  "at xs i = (if i < length xs then Some (xs ! i) else None)"

fun fold_opt :: "(nat \<Rightarrow> 's \<Rightarrow> 's option) \<Rightarrow> nat list \<Rightarrow> 's \<Rightarrow> 's option" where
  "fold_opt f [] acc = Some acc"
| "fold_opt f (i # is) acc = (case f i acc of None \<Rightarrow> None | Some acc' \<Rightarrow> fold_opt f is acc')"

text \<open>
  One round of the accumulation
  \<^verbatim>\<open>sum = (sum + m_val * v_val) % params_.modulus;\<close> on \<^verbatim>\<open>uint64_t\<close>.
\<close>

definition mac :: "u32 \<Rightarrow> ColorValue \<Rightarrow> ColorValue \<Rightarrow> u64 \<Rightarrow> u64" where
  "mac q x y acc = (acc + to_precise_value x * to_precise_value y) mod ucast q"

definition matrix_vector_mul ::
  "CLWEParameters \<Rightarrow> ColorValue list list \<Rightarrow> ColorValue list \<Rightarrow> ColorValue list option" where
  "matrix_vector_mul P matrix vec =
     (let k = unat (module_rank P)
      in those_opt (map (\<lambda>i.
           map_option from_precise_value
             (fold_opt (\<lambda>j acc.
                case (at matrix i, at vec j) of
                  (Some row, Some v) \<Rightarrow>
                    (case at row j of Some m \<Rightarrow> Some (mac (modulus P) m v acc) | None \<Rightarrow> None)
                | _ \<Rightarrow> None) [0..<k] 0)) [0..<k]))"

definition matrix_transpose_vector_mul ::
  "CLWEParameters \<Rightarrow> ColorValue list list \<Rightarrow> ColorValue list \<Rightarrow> ColorValue list option" where
  "matrix_transpose_vector_mul P matrix vec =
     (let k = unat (module_rank P)
      in those_opt (map (\<lambda>i.
           map_option from_precise_value
             (fold_opt (\<lambda>j acc.
                case (at matrix j, at vec j) of
                  (Some row, Some v) \<Rightarrow>
                    (case at row i of Some m \<Rightarrow> Some (mac (modulus P) m v acc) | None \<Rightarrow> None)
                | _ \<Rightarrow> None) [0..<k] 0)) [0..<k]))"

text \<open>
  \<^verbatim>\<open>
  auto As = this->matrix_vector_mul(matrix_A, secret_key);
  for (uint32_t i = 0; i < params_.module_rank; ++i) {
      uint64_t pk_val = (As[i].to_precise_value() + error_vector[i].to_precise_value()) % params_.modulus;
      public_key[i] = ColorValue::from_precise_value(pk_val);
  }
  \<close>
\<close>

definition generate_public_key ::
  "CLWEParameters \<Rightarrow> ColorValue list \<Rightarrow> ColorValue list list \<Rightarrow> ColorValue list
     \<Rightarrow> ColorValue list option" where
  "generate_public_key P secret_key matrix_A error_vector =
     (case matrix_vector_mul P matrix_A secret_key of
        None \<Rightarrow> None
      | Some As \<Rightarrow>
          those_opt (map (\<lambda>i.
            case (at As i, at error_vector i) of
              (Some x, Some e) \<Rightarrow>
                Some (from_precise_value
                  ((to_precise_value x + to_precise_value e) mod ucast (modulus P)))
            | _ \<Rightarrow> None) [0..<unat (module_rank P)]))"

subsection \<open>Encoding colours as bytes\<close>

text \<open>
  \<^verbatim>\<open>encode_color_secret\<close> and \<^verbatim>\<open>color_secret_to_bytes\<close> have the same body:
  \<^verbatim>\<open>
  uint32_t value = static_cast<uint32_t>(secret.to_precise_value());
  return { static_cast<uint8_t>((value >> 24) & 0xFF), static_cast<uint8_t>((value >> 16) & 0xFF),
           static_cast<uint8_t>((value >> 8) & 0xFF),  static_cast<uint8_t>(value & 0xFF) };
  \<close>
\<close>

definition be_bytes :: "u32 \<Rightarrow> u8 list" where
  "be_bytes v =
     [ucast (drop_bit 24 v AND 0xFF), ucast (drop_bit 16 v AND 0xFF),
      ucast (drop_bit 8 v AND 0xFF), ucast (v AND 0xFF)]"

definition encode_color_secret :: "ColorValue \<Rightarrow> u8 list" where
  "encode_color_secret secret = be_bytes (ucast (to_precise_value secret))"

definition color_secret_to_bytes :: "ColorValue \<Rightarrow> u8 list" where
  "color_secret_to_bytes secret = be_bytes (ucast (to_precise_value secret))"

text \<open>
  \<^verbatim>\<open>decode_color_secret\<close> and \<^verbatim>\<open>bytes_to_color_secret\<close> have the same body:
  \<^verbatim>\<open>
  if (bytes.size() < 4) return ColorValue::from_precise_value(0);
  uint32_t value = (static_cast<uint32_t>(bytes[0]) << 24) | (static_cast<uint32_t>(bytes[1]) << 16) |
                   (static_cast<uint32_t>(bytes[2]) << 8) | static_cast<uint32_t>(bytes[3]);
  return ColorValue::from_precise_value(value);
  \<close>
\<close>

definition be_value :: "u8 list \<Rightarrow> u32" where
  "be_value bytes =
     push_bit 24 (ucast (bytes ! 0)) OR push_bit 16 (ucast (bytes ! 1))
       OR push_bit 8 (ucast (bytes ! 2)) OR ucast (bytes ! 3)"

definition decode_color_secret :: "u8 list \<Rightarrow> ColorValue" where
  "decode_color_secret encoded =
     (if length encoded < 4 then from_precise_value 0
      else from_precise_value (ucast (be_value encoded)))"

definition bytes_to_color_secret :: "u8 list \<Rightarrow> ColorValue" where
  "bytes_to_color_secret bytes =
     (if length bytes < 4 then from_precise_value 0
      else from_precise_value (ucast (be_value bytes)))"

text \<open>
  The parsing loop shared by \<^verbatim>\<open>encapsulate\<close> and \<^verbatim>\<open>decapsulate\<close>:
  \<^verbatim>\<open>
  for (size_t i = 0; i < data.size(); i += 4) {
      std::vector<uint8_t> bytes(data.begin() + i, data.begin() + std::min(i + 4, data.size()));
      colors.push_back(bytes_to_color_secret(bytes));
  }
  \<close>
\<close>

function parse_colors :: "u8 list \<Rightarrow> ColorValue list" where
  "parse_colors data =
     (if data = [] then [] else bytes_to_color_secret (take 4 data) # parse_colors (drop 4 data))"
  by pat_completeness auto
termination
  by (relation "measure length") auto

definition colors_to_bytes :: "ColorValue list \<Rightarrow> u8 list" where
  "colors_to_bytes colors = concat (map color_secret_to_bytes colors)"

subsection \<open>Keys and ciphertexts\<close>

record ColorPublicKey =
  pk_seed :: "u8 list"
  public_data :: "u8 list"
  pk_params :: CLWEParameters

record ColorPrivateKey =
  secret_data :: "u8 list"
  sk_params :: CLWEParameters

record ColorCiphertext =
  ciphertext_data :: "u8 list"
  shared_secret_hint :: "u8 list"
  ct_params :: CLWEParameters



definition ColorPrivateKey_serialize :: "ColorPrivateKey \<Rightarrow> u8 list" where
  "ColorPrivateKey_serialize key = secret_data key"

definition ColorPrivateKey_deserialize :: "u8 list \<Rightarrow> ColorPrivateKey" where
  "ColorPrivateKey_deserialize data = \<lparr> secret_data = data, sk_params = new_CLWEParameters 128 \<rparr>"



subsection \<open>Encryption and decryption of one bit\<close>

text \<open>
  \<^verbatim>\<open>encrypt_message\<close> never reads its argument \<^verbatim>\<open>matrix_A\<close>. It draws
  \<^verbatim>\<open>r\<close>, \<^verbatim>\<open>e1\<close> and \<^verbatim>\<open>e2\<close> in this order.
\<close>

definition encrypt_message ::
  "CLWEParameters \<Rightarrow> ColorValue list list \<Rightarrow> ColorValue list \<Rightarrow> ColorValue \<Rightarrow> Entropy
     \<Rightarrow> (ColorValue list \<times> Entropy) option" where
  "encrypt_message P matrix_A public_key message env =
     (let k = unat (module_rank P); q = modulus P;
          (r_vector, env1) = generate_secret_key P env;
          (e1_vector, env2) = generate_error_vector P env1;
          (e2_vector, env3) = generate_error_vector P env2
      in case at e2_vector 0 of
           None \<Rightarrow> None
         | Some e2 \<Rightarrow>
             (case (those_opt (map (\<lambda>i.
                      case (at r_vector i, at e1_vector i) of
                        (Some rv, Some e1) \<Rightarrow>
                          Some (from_precise_value
                            ((to_precise_value rv + to_precise_value e1) mod ucast q))
                      | _ \<Rightarrow> None) [0..<k]),
                    fold_opt (\<lambda>i acc.
                      case (at public_key i, at r_vector i) of
                        (Some t, Some rv) \<Rightarrow> Some (mac q t rv acc)
                      | _ \<Rightarrow> None) [0..<k] 0) of
                (Some c1, Some inner_product) \<Rightarrow>
                  (let e2_val = to_precise_value e2;
                       m_val = to_precise_value message;
                       q_fourth = (ucast (q div 4) :: u64);
                       encoded_m = m_val * q_fourth;
                       c2_val = (inner_product + e2_val + encoded_m) mod ucast q
                   in Some (c1 @ [from_precise_value c2_val], env3))
              | _ \<Rightarrow> None))"

text \<open>
  \<^verbatim>\<open>
  std::vector<ColorValue> c1(ciphertext.begin(), ciphertext.begin() + k);
  ColorValue c2 = ciphertext[k];
  uint64_t s_dot_c1 = 0;
  for (uint32_t i = 0; i < k; ++i)
      s_dot_c1 = (s_dot_c1 + secret_key[i].to_precise_value() * c1[i].to_precise_value()) % q;
  uint64_t c2_val = c2.to_precise_value();
  uint64_t v = (c2_val >= s_dot_c1) ? (c2_val - s_dot_c1) : (c2_val + q - s_dot_c1);
  v %= q;
  uint64_t q_half = q / 2;
  uint32_t m = (v > q_half) ? 1 : 0;
  return ColorValue::from_precise_value(m);
  \<close>
\<close>

definition decrypt_message ::
  "CLWEParameters \<Rightarrow> ColorValue list \<Rightarrow> ColorValue list \<Rightarrow> ColorValue option" where
  "decrypt_message P secret_key ciphertext =
     (let k = unat (module_rank P); q = modulus P
      in case at ciphertext k of
           None \<Rightarrow> None
         | Some c2 \<Rightarrow>
             (case fold_opt (\<lambda>i acc.
                     case at secret_key i of
                       Some sk \<Rightarrow> Some (mac q sk (take k ciphertext ! i) acc)
                     | None \<Rightarrow> None) [0..<k] 0 of
                None \<Rightarrow> None
              | Some s_dot_c1 \<Rightarrow>
                  (let c2_val = to_precise_value c2;
                       v = (if c2_val \<ge> s_dot_c1 then c2_val - s_dot_c1
                            else c2_val + ucast q - s_dot_c1) mod ucast q;
                       q_half = (ucast (q div 2) :: u64);
                       m = (if v > q_half then 1 else 0 :: u32)
                   in Some (from_precise_value (ucast m)))))"

subsection \<open>Key generation, encapsulation, decapsulation\<close>

definition keygen ::
  "CLWEParameters \<Rightarrow> Entropy \<Rightarrow> ((ColorPublicKey \<times> ColorPrivateKey) \<times> Entropy) option" where
  "keygen P env =
     (let (matrix_seed, env1) = rd_seed env
      in case generate_matrix_A P matrix_seed of
           None \<Rightarrow> None
         | Some matrix_A \<Rightarrow>
             (let (secret_key_colors, env2) = generate_secret_key P env1;
                  (error_vector, env3) = generate_error_vector P env2
              in case generate_public_key P secret_key_colors matrix_A error_vector of
                   None \<Rightarrow> None
                 | Some public_key_colors \<Rightarrow>
                     Some ((\<lparr> pk_seed = matrix_seed,
                               public_data = colors_to_bytes public_key_colors,
                               pk_params = P \<rparr>,
                            \<lparr> secret_data = colors_to_bytes secret_key_colors,
                               sk_params = P \<rparr>), env3)))"

text \<open>
  \<^verbatim>\<open>ColorValue shared_secret = ColorValue::from_precise_value(rand() % 2);\<close> comes
  first in \<^verbatim>\<open>encapsulate\<close>.
\<close>

definition encapsulate ::
  "CLWEParameters \<Rightarrow> Entropy \<Rightarrow> ColorPublicKey \<Rightarrow> ((ColorCiphertext \<times> ColorValue) \<times> Entropy) option" where
  "encapsulate P env public_key =
     (let shared_secret = from_precise_value (of_nat (rand_values env (rand_count env) mod 2));
          env0 = env\<lparr>rand_count := rand_count env + 1\<rparr>
      in case generate_matrix_A P (pk_seed public_key) of
           None \<Rightarrow> None
         | Some matrix_A \<Rightarrow>
             (case encrypt_message P matrix_A (parse_colors (public_data public_key))
                     shared_secret env0 of
                None \<Rightarrow> None
              | Some (ciphertext_colors, env') \<Rightarrow>
                  Some ((\<lparr> ciphertext_data = colors_to_bytes ciphertext_colors,
                            shared_secret_hint = encode_color_secret shared_secret,
                            ct_params = P \<rparr>, shared_secret), env')))"

text \<open>\<^verbatim>\<open>decapsulate\<close> reads neither its public key nor the hint of the ciphertext.\<close>

definition decapsulate ::
  "CLWEParameters \<Rightarrow> ColorPublicKey \<Rightarrow> ColorPrivateKey \<Rightarrow> ColorCiphertext \<Rightarrow> ColorValue option" where
  "decapsulate P public_key private_key ciphertext =
     decrypt_message P (parse_colors (secret_data private_key))
       (parse_colors (ciphertext_data ciphertext))"

section \<open>Notions used to state the properties\<close>

subsection \<open>Serialised lengths\<close>



subsection \<open>The stream of candidates of the matrix sampler\<close>

text \<open>
  Round \<open>t\<close> of the sampling loop squeezes the stream positions \<open>3 t\<close>, \<open>3 t + 1\<close> and
  \<open>3 t + 2\<close>; its two candidates are \<^verbatim>\<open>coeff1\<close> and \<^verbatim>\<open>coeff2\<close>, widened to
  \<^verbatim>\<open>uint32_t\<close> as the comparison with \<^verbatim>\<open>q\<close> and the store do. \<open>accepted q st T\<close> are
  the candidates of the first \<open>T\<close> rounds that are below \<open>q\<close>, in the order of the loop;
  \<open>fill\<close> is the vector \<^verbatim>\<open>coeffs\<close> holding them.
\<close>

definition chunk_bytes :: "u8 list \<Rightarrow> nat \<Rightarrow> u8 list" where
  "chunk_bytes st t = map (\<lambda>i. shake128_byte st (3 * t + i)) [0..<3]"

definition chunk_candidates :: "u8 list \<Rightarrow> nat \<Rightarrow> u32 list" where
  "chunk_candidates st t =
     [ucast (coeff1_of (chunk_bytes st t)), ucast (coeff2_of (chunk_bytes st t))]"

definition candidates :: "u8 list \<Rightarrow> nat \<Rightarrow> u32 list" where
  "candidates st T = concat (map (chunk_candidates st) [0..<T])"

definition accepted :: "u32 \<Rightarrow> u8 list \<Rightarrow> nat \<Rightarrow> u32 list" where
  "accepted q st T = filter (\<lambda>c. c < q) (candidates st T)"


subsection \<open>The engine of the parameter sets\<close>

text \<open>
  Every parameter set has \<open>q = 3329\<close> and \<open>n = 256\<close>. \<open>kyber_engine\<close> is what the
  constructor builds for them (lemma \<open>new_engine\<close> below); \<open>stage_fold\<close> is the inner
  loop of a stage after \<open>c\<close> iterations, \<open>inverse_butterflies\<close> the inverse transform
  before its scaling loop, \<open>pointwise\<close> the product loop of \<^verbatim>\<open>multiply\<close>.
\<close>

definition stage_fold :: "ScalarNTTEngine \<Rightarrow> u32 list \<Rightarrow> nat \<Rightarrow> nat \<Rightarrow> u32 list \<Rightarrow> nat \<Rightarrow> u32 list" where
  "stage_fold e zs m k poly c =
     foldl (\<lambda>p i. let (x, y) = butterfly e (p ! i) (p ! (i + k)) (zs ! (i * m))
                   in p[i := x, i + k := y]) poly [0..<c]"

definition kyber_engine :: ScalarNTTEngine where
  "kyber_engine =
     \<lparr> engine_q = 3329, engine_n = 256, log_n = 8,
       zetas = zeta_table 939 3329 256, zetas_inv = zeta_table 1684 3329 256,
       montgomery_r = 1353, montgomery_r_inv = 1929 \<rparr>"

text \<open>The polynomials \<open>1\<close>, \<open>1 + x\<^sup>2\<^sup>5\<^sup>5\<close> and \<open>x\<close>.\<close>

definition poly_one :: "u32 list" where "poly_one = 1 # replicate 255 0"

definition inverse_butterflies :: "u32 list \<Rightarrow> u32 list" where
  "inverse_butterflies p =
     inverse_stages kyber_engine 8 128 1 p"

definition a_poly :: "u32 list" where "a_poly = 1 # replicate 254 0 @ [1]"

definition b_poly :: "u32 list" where "b_poly = 0 # 1 # replicate 254 0"

definition pointwise :: "u32 list \<Rightarrow> u32 list \<Rightarrow> u32 list" where
  "pointwise x y =
     map (\<lambda>i. scalar_montgomery_reduce kyber_engine ((ucast (x ! i) :: u64) * ucast (y ! i)))
       [0..<256]"

subsection \<open>The matrix derivation as claim C5 words it\<close>



definition seed_one :: "u8 list" where
  "seed_one = 0 # 1 # replicate 30 0"

subsection \<open>The contract of a Montgomery reduction\<close>

text \<open>
  What the specification asks of \<open>mont_reduce\<close> at an input \<open>x\<close> with result \<open>a\<close> for the
  radix \<open>R\<close>: \<open>- q < a < q\<close> and \<open>a \<equiv> x R\<^sup>-\<^sup>1 (mod q)\<close>. With \<open>R\<close> invertible modulo
  \<open>q\<close> the congruence is \<open>a R \<equiv> x (mod q)\<close>, which needs no inverse to state.
\<close>

definition montgomery_postcondition :: "int \<Rightarrow> int \<Rightarrow> int \<Rightarrow> int \<Rightarrow> bool" where
  "montgomery_postcondition q R x a \<longleftrightarrow> - q < a \<and> a < q \<and> (a * R) mod q = x mod q"

section \<open>Properties of ColorValue\<close>

lemma byte_mask_u64: "(0xFF :: u64) = mask 8"
  by (simp add: mask_eq_exp_minus_1)

lemma precise_roundtrip_bit:
  "bit (to_precise_value (from_precise_value v)) n \<longleftrightarrow>
     bit v n \<and> (n < 8 \<or> (16 \<le> n \<and> n < 24) \<or> (32 \<le> n \<and> n < 40))"
  unfolding to_precise_value_def from_precise_value_def byte_mask_u64
  by (auto simp: bit_simps dest: bit_imp_le_length)

text \<open>
  Claim C9. For every 64-bit value \<open>v\<close>, converting \<open>v\<close> to a colour with
  \<^verbatim>\<open>from_precise_value\<close> and back with \<^verbatim>\<open>to_precise_value\<close> keeps exactly the bits
  of \<open>v\<close> at positions 0 to 7, 16 to 23 and 32 to 39 and clears every other bit; so a
  value with a bit set at one of the positions 8 to 15 (256 is one, and it is below
  \<open>q = 3329\<close>) does not come back from the round trip.
\<close>

theorem color_value_roundtrip_masks_bits:
  "(\<forall>n. bit (to_precise_value (from_precise_value v)) n \<longleftrightarrow>
          bit v n \<and> (n < 8 \<or> (16 \<le> n \<and> n < 24) \<or> (32 \<le> n \<and> n < 40)))
   \<and> ((\<exists>n. 8 \<le> n \<and> n < 16 \<and> bit v n) \<longrightarrow> to_precise_value (from_precise_value v) \<noteq> v)"
proof (intro conjI allI impI)
  fix n
  show "bit (to_precise_value (from_precise_value v)) n \<longleftrightarrow>
          bit v n \<and> (n < 8 \<or> (16 \<le> n \<and> n < 24) \<or> (32 \<le> n \<and> n < 40))"
    by (rule precise_roundtrip_bit)
next
  assume "\<exists>n. 8 \<le> n \<and> n < 16 \<and> bit v n"
  then obtain n where n: "8 \<le> n" "n < 16" "bit v n" by blast
  then have "\<not> bit (to_precise_value (from_precise_value v)) n"
    by (simp add: precise_roundtrip_bit)
  with n show "to_precise_value (from_precise_value v) \<noteq> v" by metis
qed

theorem color_value_roundtrip_masks_bits_witness:
  "(\<exists>n. 8 \<le> n \<and> n < 16 \<and> bit (256 :: u64) n) \<and> (256 :: u64) < 3329
   \<and> to_precise_value (from_precise_value 256) \<noteq> 256"
proof -
  have "bit (256 :: u64) 8" by (simp add: bit_iff_odd)
  then have h: "\<exists>n. 8 \<le> n \<and> n < 16 \<and> bit (256 :: u64) n" by (intro exI [of _ 8]) simp
  with color_value_roundtrip_masks_bits [of 256] show ?thesis by simp
qed

section \<open>Deserialisation\<close>




section \<open>The sampling loop of the matrix\<close>




lemma accepted_Suc:
  "accepted q st (Suc t) = accepted q st t @ filter (\<lambda>c. c < q) (chunk_candidates st t)"
  by (simp add: accepted_def candidates_def)



lemma accepted_prefix:
  "t \<le> T \<Longrightarrow> take (length (accepted q st t)) (accepted q st T) = accepted q st t"
proof (induction T)
  case 0
  then show ?case by simp
next
  case (Suc T)
  show ?case
  proof (cases "t = Suc T")
    case True
    then show ?thesis by simp
  next
    case False
    with Suc have "t \<le> T" and ih: "take (length (accepted q st t)) (accepted q st T) = accepted q st t"
      by simp_all
    have "length (accepted q st t) \<le> length (accepted q st T)"
      by (metis ih length_take min.cobounded2 min.commute)
    then show ?thesis
      by (simp add: accepted_Suc ih)
  qed
qed

lemma accepted_length_mono: "t \<le> T \<Longrightarrow> length (accepted q st t) \<le> length (accepted q st T)"
  by (metis accepted_prefix length_take min.cobounded2 min.commute)


























lemma params_128 [simp]:
  "modulus (new_CLWEParameters 128) = 3329" "degree (new_CLWEParameters 128) = 256"
  "module_rank (new_CLWEParameters 128) = 2" "eta (new_CLWEParameters 128) = 2"
  by (simp_all add: new_CLWEParameters_def)

lemma seed_one_length [simp]: "length seed_one = 32"
  by (simp add: seed_one_def)






section \<open>The scalar transform on concrete polynomials\<close>

lemma fst_butterfly: "fst (butterfly e x y z) = (x + y) mod engine_q e"
  by (simp add: butterfly_def Let_def)

lemma snd_butterfly:
  "snd (butterfly e x y z) =
     scalar_montgomery_reduce e
       ((ucast (if x \<ge> y then x - y else x + engine_q e - y) :: u64) * ucast z)"
  by (simp add: butterfly_def Let_def)

lemma stage_fold_length [simp]: "length (stage_fold e zs m k poly c) = length poly"
  by (induction c) (simp_all add: stage_fold_def Let_def case_prod_beta)

lemma stage_fold_nth:
  assumes "c \<le> k" "k + c \<le> length poly" "j < length poly"
  shows "stage_fold e zs m k poly c ! j =
     (if j < c then fst (butterfly e (poly ! j) (poly ! (j + k)) (zs ! (j * m)))
      else if k \<le> j \<and> j < k + c then snd (butterfly e (poly ! (j - k)) (poly ! j) (zs ! ((j - k) * m)))
      else poly ! j)"
  using assms
proof (induction c arbitrary: j)
  case 0
  show ?case by (auto simp: stage_fold_def)
next
  case (Suc c)
  let ?p = "stage_fold e zs m k poly c"
  have step: "stage_fold e zs m k poly (Suc c) =
      ?p[c := fst (butterfly e (?p ! c) (?p ! (c + k)) (zs ! (c * m))),
         c + k := snd (butterfly e (?p ! c) (?p ! (c + k)) (zs ! (c * m)))]"
    by (simp add: stage_fold_def Let_def case_prod_beta)
  have pc: "?p ! c = poly ! c" and pck: "?p ! (c + k) = poly ! (c + k)"
    using Suc.prems by (simp_all add: Suc.IH)
  show ?case
    unfolding step pc pck
    using Suc.prems by (auto simp: nth_list_update Suc.IH add.commute)
qed

lemma ntt_stage_length [simp]: "length (ntt_stage e zs m k poly) = length poly"
  unfolding ntt_stage_def stage_fold_def [symmetric] by simp

lemma ntt_stage_nth:
  assumes "2 * k \<le> length poly" "j < length poly"
  shows "ntt_stage e zs m k poly ! j =
     (if j < k then (poly ! j + poly ! (j + k)) mod engine_q e
      else if j < 2 * k then snd (butterfly e (poly ! (j - k)) (poly ! j) (zs ! ((j - k) * m)))
      else poly ! j)"
  unfolding ntt_stage_def stage_fold_def [symmetric]
  using assms by (auto simp: stage_fold_nth fst_butterfly)

lemma foldl_update_keeps_0:
  "(\<And>i. i \<in> set is \<Longrightarrow> 0 < i) \<Longrightarrow> foldl (\<lambda>zs i. zs[i := f zs i]) zs0 is ! 0 = zs0 ! 0"
  by (induction "is" arbitrary: zs0) auto

lemma zeta_table_0: "0 < n \<Longrightarrow> zeta_table zeta q n ! 0 = 1"
  unfolding zeta_table_def by (subst foldl_update_keeps_0) auto

lemma mod_pow_17: "mod_pow 17 13 3329 = 939"
  by (simp add: mod_pow_def mulmod_def)

lemma mod_inverse_r: "mod_inverse 1353 3329 = Some 1929"
  by (simp add: mod_inverse_def)

lemma mod_inverse_zeta: "mod_inverse 939 3329 = Some 1684"
  by (simp add: mod_inverse_def)

lemma mod_inverse_n: "mod_inverse 256 3329 = Some 3316"
  by (simp add: mod_inverse_def)

lemma new_engine: "new_ScalarNTTEngine 3329 256 = Inr kyber_engine"
  by (simp add: new_ScalarNTTEngine_def is_power_of_two_def mod_pow_17 mod_inverse_r
      mod_inverse_zeta kyber_engine_def)

lemma engine_fields [simp]:
  "engine_q kyber_engine = 3329" "engine_n kyber_engine = 256" "log_n kyber_engine = 8"
  "zetas kyber_engine ! 0 = 1" "zetas_inv kyber_engine ! 0 = 1"
  "montgomery_r_inv kyber_engine = 1929"
  by (simp_all add: kyber_engine_def zeta_table_0)

lemma smr_1: "scalar_montgomery_reduce kyber_engine 1 = 4294967295"
  by (simp add: scalar_montgomery_reduce_def)

lemma forward_stages_step:
  "0 < s \<Longrightarrow> forward_stages e s m k poly
     = forward_stages e (s - 1) (m * 2) (k div 2) (ntt_stage e (zetas e) m k poly)"
  by (cases s) simp_all

lemma inverse_stages_step:
  "0 < s \<Longrightarrow> inverse_stages e s m k poly
     = inverse_stages e (s - 1) (m div 2) (k * 2) (ntt_stage e (zetas_inv e) m k poly)"
  by (cases s) simp_all

lemma forward_8:
  "ntt_forward kyber_engine p =
     ntt_stage kyber_engine (zetas kyber_engine) 128 1
      (ntt_stage kyber_engine (zetas kyber_engine) 64 2
       (ntt_stage kyber_engine (zetas kyber_engine) 32 4
        (ntt_stage kyber_engine (zetas kyber_engine) 16 8
         (ntt_stage kyber_engine (zetas kyber_engine) 8 16
          (ntt_stage kyber_engine (zetas kyber_engine) 4 32
           (ntt_stage kyber_engine (zetas kyber_engine) 2 64
            (ntt_stage kyber_engine (zetas kyber_engine) 1 128 p)))))))"
  by (simp add: ntt_forward_def forward_stages_step)

lemma inverse_8:
  "ntt_inverse kyber_engine p =
     Some (map (\<lambda>c. scalar_montgomery_reduce kyber_engine ((ucast c :: u64) * 3316))
      (ntt_stage kyber_engine (zetas_inv kyber_engine) 1 128
       (ntt_stage kyber_engine (zetas_inv kyber_engine) 2 64
        (ntt_stage kyber_engine (zetas_inv kyber_engine) 4 32
         (ntt_stage kyber_engine (zetas_inv kyber_engine) 8 16
          (ntt_stage kyber_engine (zetas_inv kyber_engine) 16 8
           (ntt_stage kyber_engine (zetas_inv kyber_engine) 32 4
            (ntt_stage kyber_engine (zetas_inv kyber_engine) 64 2
             (ntt_stage kyber_engine (zetas_inv kyber_engine) 128 1 p)))))))))"
  by (simp add: ntt_inverse_def inverse_stages_step mod_inverse_n)

lemma ntt_forward_length [simp]: "length (ntt_forward kyber_engine p) = length p"
  by (simp add: forward_8)

lemma poly_one_length [simp]: "length poly_one = 256" by (simp add: poly_one_def)

lemma fwd_one:
  "ntt_forward kyber_engine poly_one ! 0 = 1"
  "ntt_forward kyber_engine poly_one ! 1 = 4294967295"
  "ntt_forward kyber_engine poly_one ! 2 = 4294967295"
  "ntt_forward kyber_engine poly_one ! 4 = 4294967295"
  "ntt_forward kyber_engine poly_one ! 8 = 4294967295"
  "ntt_forward kyber_engine poly_one ! 16 = 4294967295"
  "ntt_forward kyber_engine poly_one ! 32 = 4294967295"
  "ntt_forward kyber_engine poly_one ! 64 = 4294967295"
  "ntt_forward kyber_engine poly_one ! 128 = 4294967295"
  by (simp_all add: forward_8 ntt_stage_nth snd_butterfly smr_1 poly_one_def)

lemma fwd_one_Suc:
  "ntt_forward kyber_engine poly_one ! Suc 0 = 4294967295"
  "ntt_forward kyber_engine poly_one ! Suc (Suc 0) = 4294967295"
  using fwd_one(2,3) by (simp_all add: numeral_2_eq_2)

lemma inverse_split:
  "ntt_inverse kyber_engine p =
     Some (map (\<lambda>c. scalar_montgomery_reduce kyber_engine ((ucast c :: u64) * 3316))
            (inverse_butterflies p))"
  by (simp add: ntt_inverse_def inverse_butterflies_def mod_inverse_n)

lemma inverse_butterflies_8:
  "inverse_butterflies p =
      (ntt_stage kyber_engine (zetas_inv kyber_engine) 1 128
       (ntt_stage kyber_engine (zetas_inv kyber_engine) 2 64
        (ntt_stage kyber_engine (zetas_inv kyber_engine) 4 32
         (ntt_stage kyber_engine (zetas_inv kyber_engine) 8 16
          (ntt_stage kyber_engine (zetas_inv kyber_engine) 16 8
           (ntt_stage kyber_engine (zetas_inv kyber_engine) 32 4
            (ntt_stage kyber_engine (zetas_inv kyber_engine) 64 2
             (ntt_stage kyber_engine (zetas_inv kyber_engine) 128 1 p))))))))"
  by (simp add: inverse_butterflies_def inverse_stages_step)

lemma inverse_butterflies_length [simp]: "length (inverse_butterflies p) = length p"
  by (simp add: inverse_butterflies_8)

lemma inv_one_0: "inverse_butterflies (ntt_forward kyber_engine poly_one) ! 0 = 1346"
  by (simp add: inverse_butterflies_8 ntt_stage_nth fwd_one fwd_one_Suc)

lemma smr_roundtrip: "scalar_montgomery_reduce kyber_engine (1346 * 3316) = 4294967280"
  by (simp add: scalar_montgomery_reduce_def)

lemma roundtrip_0:
  "map_option (\<lambda>r. r ! 0) (ntt_inverse kyber_engine (ntt_forward kyber_engine poly_one)) = Some 4294967280"
  using smr_roundtrip by (simp add: inverse_split inv_one_0)

lemma ab_length [simp]: "length a_poly = 256" "length b_poly = 256"
  by (simp_all add: a_poly_def b_poly_def)

lemma fwd_a:
  "ntt_forward kyber_engine a_poly ! 0 = 2"
  "ntt_forward kyber_engine a_poly ! 1 = 0"
  "ntt_forward kyber_engine a_poly ! 2 = 4294967295"
  "ntt_forward kyber_engine a_poly ! 4 = 4294967295"
  "ntt_forward kyber_engine a_poly ! 8 = 4294967295"
  "ntt_forward kyber_engine a_poly ! 16 = 4294967295"
  "ntt_forward kyber_engine a_poly ! 32 = 4294967295"
  "ntt_forward kyber_engine a_poly ! 64 = 4294967295"
  "ntt_forward kyber_engine a_poly ! 128 = 4294967295"
  by (simp_all add: forward_8 ntt_stage_nth snd_butterfly scalar_montgomery_reduce_def
      a_poly_def nth_append)

lemma fwd_b:
  "ntt_forward kyber_engine b_poly ! 0 = 1"
  "ntt_forward kyber_engine b_poly ! 1 = 4294967291"
  "ntt_forward kyber_engine b_poly ! 2 = 0"
  "ntt_forward kyber_engine b_poly ! 4 = 0"
  "ntt_forward kyber_engine b_poly ! 8 = 0"
  "ntt_forward kyber_engine b_poly ! 16 = 0"
  "ntt_forward kyber_engine b_poly ! 32 = 0"
  "ntt_forward kyber_engine b_poly ! 64 = 0"
  "ntt_forward kyber_engine b_poly ! 128 = 0"
  by (simp_all add: forward_8 ntt_stage_nth snd_butterfly scalar_montgomery_reduce_def
      b_poly_def)

lemma pointwise_length [simp]: "length (pointwise x y) = 256"
  by (simp add: pointwise_def)

lemma multiply_split:
  "length x = 256 \<Longrightarrow> length y = 256 \<Longrightarrow>
   multiply kyber_engine x y =
     Some (map (\<lambda>c. scalar_montgomery_reduce kyber_engine ((ucast c :: u64) * 3316))
       (inverse_butterflies (pointwise (ntt_forward kyber_engine x) (ntt_forward kyber_engine y))))"
  by (simp add: multiply_def Let_def inverse_split pointwise_def)

lemma fwd_ab_Suc:
  "ntt_forward kyber_engine a_poly ! Suc 0 = 0"
  "ntt_forward kyber_engine a_poly ! Suc (Suc 0) = 4294967295"
  "ntt_forward kyber_engine b_poly ! Suc 0 = 4294967291"
  "ntt_forward kyber_engine b_poly ! Suc (Suc 0) = 0"
  using fwd_a(2,3) fwd_b(2,3) by (simp_all only: numeral_2_eq_2 One_nat_def)

lemma pointwise_ab:
  "pointwise (ntt_forward kyber_engine a_poly) (ntt_forward kyber_engine b_poly) ! 0 = 4294967295"
  "pointwise (ntt_forward kyber_engine a_poly) (ntt_forward kyber_engine b_poly) ! 1 = 0"
  "pointwise (ntt_forward kyber_engine a_poly) (ntt_forward kyber_engine b_poly) ! 2 = 0"
  "pointwise (ntt_forward kyber_engine a_poly) (ntt_forward kyber_engine b_poly) ! 4 = 0"
  "pointwise (ntt_forward kyber_engine a_poly) (ntt_forward kyber_engine b_poly) ! 8 = 0"
  "pointwise (ntt_forward kyber_engine a_poly) (ntt_forward kyber_engine b_poly) ! 16 = 0"
  "pointwise (ntt_forward kyber_engine a_poly) (ntt_forward kyber_engine b_poly) ! 32 = 0"
  "pointwise (ntt_forward kyber_engine a_poly) (ntt_forward kyber_engine b_poly) ! 64 = 0"
  "pointwise (ntt_forward kyber_engine a_poly) (ntt_forward kyber_engine b_poly) ! 128 = 0"
  by (simp_all add: pointwise_def fwd_a fwd_b fwd_ab_Suc scalar_montgomery_reduce_def)

lemma pointwise_ab_Suc:
  "pointwise (ntt_forward kyber_engine a_poly) (ntt_forward kyber_engine b_poly) ! Suc 0 = 0"
  "pointwise (ntt_forward kyber_engine a_poly) (ntt_forward kyber_engine b_poly) ! Suc (Suc 0) = 0"
  using pointwise_ab(2,3) by (simp_all only: numeral_2_eq_2 One_nat_def)

lemma inv_ab_0:
  "inverse_butterflies (pointwise (ntt_forward kyber_engine a_poly) (ntt_forward kyber_engine b_poly)) ! 0
     = 1352"
  by (simp add: inverse_butterflies_8 ntt_stage_nth pointwise_ab pointwise_ab_Suc)

lemma smr_product: "scalar_montgomery_reduce kyber_engine (1352 * 3316) = 4294967250"
  by (simp add: scalar_montgomery_reduce_def)

lemma multiply_0:
  "map_option (\<lambda>r. r ! 0) (multiply kyber_engine a_poly b_poly) = Some 4294967250"
  using smr_product by (simp add: multiply_split inv_ab_0)

lemma umr_1: "montgomery_reduce 1 3329 = 0"
  by (simp add: montgomery_reduce_def)

text \<open>
  Claim C3 asks that the inverse transform undoes the forward transform on every
  polynomial with coefficients below \<open>q\<close>. The code does not: for \<open>q = 3329\<close>,
  \<open>n = 256\<close> and the constant polynomial \<open>1\<close> the round trip leaves 4294967280 in
  coefficient 0, where the input has 1.
\<close>

theorem ntt_roundtrip_coefficient_0:
  "(case new_ScalarNTTEngine 3329 256 of
      Inl f \<Rightarrow> None
    | Inr e \<Rightarrow> map_option (\<lambda>r. r ! 0) (ntt_inverse e (ntt_forward e (1 # replicate 255 0))))
   = Some 4294967280"
  using roundtrip_0 by (simp add: new_engine poly_one_def)

text \<open>
  Claim C4 asks that \<^verbatim>\<open>multiply\<close> returns the product in \<open>Z\<^sub>q[x]/(x\<^sup>n + 1)\<close>, so that
  \<open>(1 + x\<^sup>n\<^sup>-\<^sup>1) \<cdot> x = x - 1\<close> has \<open>q - 1 = 3328\<close> in coefficient 0. The code returns
  4294967250 there.
\<close>

theorem multiply_coefficient_0:
  "(case new_ScalarNTTEngine 3329 256 of
      Inl f \<Rightarrow> None
    | Inr e \<Rightarrow> map_option (\<lambda>r. r ! 0)
        (multiply e (1 # replicate 254 0 @ [1]) (0 # 1 # replicate 254 0)))
   = Some 4294967250"
  using multiply_0 by (simp add: new_engine a_poly_def b_poly_def)

text \<open>
  Claim C6 asks that a Montgomery reduction returns \<open>a\<close> with \<open>- q < a < q\<close> and
  \<open>a \<equiv> x R\<^sup>-\<^sup>1 (mod q)\<close>. At \<open>x = 1\<close> and \<open>q = 3329\<close> the function of utils.cpp
  returns 0, which is congruent to \<open>x R\<^sup>-\<^sup>1\<close> for no radix, and the method of the scalar
  engine returns 4294967295: out of range when read as unsigned, and \<open>- 1\<close> when read as
  signed, which satisfies the congruence neither for \<open>R = 2\<^sup>1\<^sup>6\<close> nor for \<open>R = 2\<^sup>3\<^sup>2\<close>.
\<close>

theorem montgomery_reduce_at_1:
  "montgomery_reduce 1 3329 = 0
   \<and> \<not> montgomery_postcondition 3329 R 1 (uint (montgomery_reduce 1 3329))
   \<and> (case new_ScalarNTTEngine 3329 256 of
         Inl f \<Rightarrow> None | Inr e \<Rightarrow> Some (scalar_montgomery_reduce e 1)) = Some 4294967295
   \<and> \<not> montgomery_postcondition 3329 R (1 :: int) (uint (4294967295 :: u32))
   \<and> sint (4294967295 :: u32) = - 1
   \<and> \<not> montgomery_postcondition 3329 (2 ^ 16) 1 (sint (4294967295 :: u32))
   \<and> \<not> montgomery_postcondition 3329 (2 ^ 32) 1 (sint (4294967295 :: u32))"
  by (simp add: umr_1 new_engine smr_1 montgomery_postcondition_def)

end
